theory Spec2Isabelle
  imports Main "HOL-Library.Word"
begin

section \<open>The browser binding of the vault: \<open>src/index.js\<close>\<close>

text \<open>
  \<open>index.js\<close> registers two click handlers on a page with a password field, a data
  field and an output element. The handlers call \<open>encrypt_wrapper\<close> and
  \<open>decrypt_wrapper\<close>, which the page imports from \<open>./pkg/vault_wasm.js\<close>.

  A JavaScript string is a sequence of UTF-16 code units, a \<open>Uint8Array\<close> a sequence of
  bytes.
\<close>

type_synonym byte = "8 word"
type_synonym js_string = "16 word list"

definition js :: "string \<Rightarrow> js_string" where
  \<comment> \<open>a string literal of the source (Latin-1 characters only)\<close>
  "js s = map of_char s"

subsection \<open>\<open>new TextEncoder().encode\<close>\<close>

text \<open>
  The encoder first reads the code units as Unicode scalar values: a lead surrogate
  followed by a trail surrogate is one supplementary code point, any other surrogate is
  replaced by U+FFFD. Each scalar value is then written in UTF-8.
\<close>

definition is_lead :: "16 word \<Rightarrow> bool" where
  "is_lead u = (0xD800 \<le> u \<and> u \<le> 0xDBFF)"

definition is_trail :: "16 word \<Rightarrow> bool" where
  "is_trail u = (0xDC00 \<le> u \<and> u \<le> 0xDFFF)"

fun scalar_values :: "js_string \<Rightarrow> nat list" where
  "scalar_values [] = []"
| "scalar_values [u] = [if is_lead u \<or> is_trail u then 0xFFFD else unat u]"
| "scalar_values (u # v # vs) =
     (if is_lead u \<and> is_trail v
        then (0x10000 + (unat u - 0xD800) * 0x400 + (unat v - 0xDC00)) # scalar_values vs
      else if is_lead u \<or> is_trail u then 0xFFFD # scalar_values (v # vs)
      else unat u # scalar_values (v # vs))"

definition utf8_bytes :: "nat \<Rightarrow> byte list" where
  "utf8_bytes c =
     (if c < 0x80 then [of_nat c]
      else if c < 0x800 then [of_nat (0xC0 + c div 0x40), of_nat (0x80 + c mod 0x40)]
      else if c < 0x10000 then
        [of_nat (0xE0 + c div 0x1000), of_nat (0x80 + c div 0x40 mod 0x40),
         of_nat (0x80 + c mod 0x40)]
      else
        [of_nat (0xF0 + c div 0x40000), of_nat (0x80 + c div 0x1000 mod 0x40),
         of_nat (0x80 + c div 0x40 mod 0x40), of_nat (0x80 + c mod 0x40)])"

definition TextEncoder_encode :: "js_string \<Rightarrow> byte list" where
  "TextEncoder_encode s = concat (map utf8_bytes (scalar_values s))"

subsection \<open>What the page imports\<close>

text \<open>
  The two wrappers live in the generated module \<open>pkg/vault_wasm.js\<close>, and
  \<open>TextDecoder\<close> and the string conversion of a thrown value belong to the browser, so
  the handlers take them as parameters. A wrapper either returns or throws (\<open>Inl\<close>),
  and may change the state \<open>'w\<close> of the WebAssembly instance (its random source).
  \<open>TextDecoder_decode\<close> is \<open>new TextDecoder().decode\<close>, which with the default
  options replaces malformed input and does not throw. \<open>ToString\<close> is what the template
  literal \<open>`${e}`\<close> applies to the caught value: it yields a string (\<open>Inr\<close>) for a
  string or an error object, and throws a \<open>TypeError\<close> (\<open>Inl\<close>) for a \<open>Symbol\<close> or an
  object that has no conversion to a string.
\<close>

record ('w, 'x) runtime =
  encrypt_wrapper :: "'w \<Rightarrow> byte list \<Rightarrow> js_string \<Rightarrow> ('x + js_string) \<times> 'w"
  decrypt_wrapper :: "'w \<Rightarrow> js_string \<Rightarrow> js_string \<Rightarrow> ('x + byte list) \<times> 'w"
  TextDecoder_decode :: "byte list \<Rightarrow> js_string"
  ToString :: "'x \<Rightarrow> 'x + js_string"

subsection \<open>The page\<close>

text \<open>
  The state the handlers can see, on a page that has the five elements \<open>run\<close> looks
  up: the values of the two input fields, the text and the class of the output element,
  and the WebAssembly instance. \<open>engine_calls\<close> is a log
  of the calls made to the two wrappers so far, oldest first, with their arguments; the
  source keeps no such log, the model records there that a call took place.
\<close>

datatype engine_call =
  EncryptCall "byte list" js_string
| DecryptCall js_string js_string

record 'w page =
  password_value :: js_string
  data_value :: js_string
  output_textContent :: js_string
  output_className :: js_string
  wasm :: 'w
  engine_calls :: "engine_call list"

text \<open>
  A statement either completes normally with a new page (\<open>Inr\<close>) or throws a value,
  leaving the page as it was at the throw (\<open>Inl\<close>).
\<close>

type_synonym ('w, 'x) completion = "('x \<times> 'w page) + 'w page"

definition try_catch ::
  "('w page \<Rightarrow> ('w, 'x) completion) \<Rightarrow> ('x \<Rightarrow> 'w page \<Rightarrow> ('w, 'x) completion) \<Rightarrow>
   'w page \<Rightarrow> ('w, 'x) completion" where
  "try_catch body handler s =
     (case body s of Inl (e, s') \<Rightarrow> handler e s' | Inr s' \<Rightarrow> Inr s')"

definition call_encrypt_wrapper ::
  "('w, 'x) runtime \<Rightarrow> byte list \<Rightarrow> js_string \<Rightarrow> 'w page \<Rightarrow> ('x \<times> 'w page) + (js_string \<times> 'w page)" where
  "call_encrypt_wrapper I plaintextBytes password s =
     (let (r, w) = encrypt_wrapper I (wasm s) plaintextBytes password;
          s' = s\<lparr>wasm := w, engine_calls := engine_calls s @ [EncryptCall plaintextBytes password]\<rparr>
      in case r of Inl e \<Rightarrow> Inl (e, s') | Inr v \<Rightarrow> Inr (v, s'))"

definition call_decrypt_wrapper ::
  "('w, 'x) runtime \<Rightarrow> js_string \<Rightarrow> js_string \<Rightarrow> 'w page \<Rightarrow> ('x \<times> 'w page) + (byte list \<times> 'w page)" where
  "call_decrypt_wrapper I encryptedJsonPayload password s =
     (let (r, w) = decrypt_wrapper I (wasm s) encryptedJsonPayload password;
          s' = s\<lparr>wasm := w,
                 engine_calls := engine_calls s @ [DecryptCall encryptedJsonPayload password]\<rparr>
      in case r of Inl e \<Rightarrow> Inl (e, s') | Inr v \<Rightarrow> Inr (v, s'))"

subsection \<open>The encrypt button\<close>

definition encrypt_try :: "('w, 'x) runtime \<Rightarrow> js_string \<Rightarrow> js_string \<Rightarrow> 'w page \<Rightarrow> ('w, 'x) completion" where
  "encrypt_try I password plaintext s =
     (let plaintextBytes = TextEncoder_encode plaintext
      in case call_encrypt_wrapper I plaintextBytes password s of
           Inl thrown \<Rightarrow> Inl thrown
         | Inr (encryptedJsonPayload, s') \<Rightarrow>
             Inr (s'\<lparr>output_textContent := encryptedJsonPayload, output_className := js ''''\<rparr>))"

definition encrypt_catch :: "('w, 'x) runtime \<Rightarrow> 'x \<Rightarrow> 'w page \<Rightarrow> ('w, 'x) completion" where
  \<comment> \<open>the template literal is evaluated before the assignment: when the conversion
      throws, nothing is written and the \<open>TypeError\<close> leaves the handler\<close>
  "encrypt_catch I e s =
     (case ToString I e of
        Inl type_error \<Rightarrow> Inl (type_error, s)
      | Inr message \<Rightarrow>
          Inr (s\<lparr>output_textContent := js ''Encryption failed: '' @ message,
                 output_className := js ''error''\<rparr>))"

definition encrypt_click :: "('w, 'x) runtime \<Rightarrow> 'w page \<Rightarrow> ('w, 'x) completion" where
  "encrypt_click I s =
     (let password = password_value s; plaintext = data_value s
      in if password = [] \<or> plaintext = [] then
           Inr (s\<lparr>output_textContent := js ''Please provide a password and data to encrypt.'',
                  output_className := js ''error''\<rparr>)
         else try_catch (encrypt_try I password plaintext) (encrypt_catch I) s)"

subsection \<open>The decrypt button\<close>

definition decrypt_try :: "('w, 'x) runtime \<Rightarrow> js_string \<Rightarrow> js_string \<Rightarrow> 'w page \<Rightarrow> ('w, 'x) completion" where
  "decrypt_try I password encryptedJsonPayload s =
     (case call_decrypt_wrapper I encryptedJsonPayload password s of
        Inl thrown \<Rightarrow> Inl thrown
      | Inr (decryptedBytes, s') \<Rightarrow>
          (let plaintext = TextDecoder_decode I decryptedBytes
           in Inr (s'\<lparr>output_textContent := plaintext, output_className := js ''''\<rparr>)))"

definition decrypt_catch :: "('w, 'x) runtime \<Rightarrow> 'x \<Rightarrow> 'w page \<Rightarrow> ('w, 'x) completion" where
  "decrypt_catch I e s =
     (case ToString I e of
        Inl type_error \<Rightarrow> Inl (type_error, s)
      | Inr message \<Rightarrow>
          Inr (s\<lparr>output_textContent := js ''Decryption failed: '' @ message,
                 output_className := js ''error''\<rparr>))"

definition decrypt_click :: "('w, 'x) runtime \<Rightarrow> 'w page \<Rightarrow> ('w, 'x) completion" where
  "decrypt_click I s =
     (let password = password_value s; encryptedJsonPayload = data_value s
      in if password = [] \<or> encryptedJsonPayload = [] then
           Inr (s\<lparr>output_textContent :=
                    js ''Please provide a password and the encrypted JSON payload.'',
                  output_className := js ''error''\<rparr>)
         else try_catch (decrypt_try I password encryptedJsonPayload) (decrypt_catch I) s)"

subsection \<open>What a click did\<close>

definition final_page :: "('w, 'x) completion \<Rightarrow> 'w page" where
  \<comment> \<open>the page a handler leaves behind, however it completed\<close>
  "final_page c = (case c of Inl (e, s') \<Rightarrow> s' | Inr s' \<Rightarrow> s')"

definition calls_during :: "('w page \<Rightarrow> ('w, 'x) completion) \<Rightarrow> 'w page \<Rightarrow> engine_call list" where
  \<comment> \<open>the wrapper calls one run of a handler added to the log\<close>
  "calls_during click s = drop (length (engine_calls s)) (engine_calls (final_page (click s)))"

fun nonempty_args :: "engine_call \<Rightarrow> bool" where
  "nonempty_args (EncryptCall plaintextBytes password) = (plaintextBytes \<noteq> [] \<and> password \<noteq> [])"
| "nonempty_args (DecryptCall encryptedJsonPayload password) =
     (encryptedJsonPayload \<noteq> [] \<and> password \<noteq> [])"

subsection \<open>Two small runtimes and two pages to run the handlers on\<close>

text \<open>
  The values these runtimes throw: a string, a \<open>Symbol\<close>, and the \<open>TypeError\<close> that the
  conversion of a \<open>Symbol\<close> to a string throws.
\<close>

datatype js_value =
  JsString js_string
| JsSymbol
| JsTypeError js_string

fun js_ToString :: "js_value \<Rightarrow> js_value + js_string" where
  "js_ToString (JsString m) = Inr m"
| "js_ToString JsSymbol = Inl (JsTypeError (js ''Cannot convert a Symbol value to a string''))"
| "js_ToString (JsTypeError m) = Inr (js ''TypeError: '' @ m)"

text \<open>
  The instance counts the calls it has served. The \<open>encrypt_wrapper\<close> of
  \<open>demo_runtime\<close> throws a string on the first call and returns a payload afterwards;
  its \<open>decrypt_wrapper\<close> throws a string when the password is not \<open>pw\<close> and returns
  three bytes otherwise. Both wrappers of \<open>symbol_runtime\<close> throw a \<open>Symbol\<close>.
\<close>

definition demo_runtime :: "(nat, js_value) runtime" where
  "demo_runtime =
     \<lparr>encrypt_wrapper = (\<lambda>w plaintextBytes password.
        (if w = 0 then Inl (JsString (js ''EntropyUnavailable'')) else Inr (js ''{}''), Suc w)),
      decrypt_wrapper = (\<lambda>w encryptedJsonPayload password.
        (if password = js ''pw'' then Inr [0x61, 0x62, 0x63]
         else Inl (JsString (js ''AuthenticationFailed'')),
         Suc w)),
      TextDecoder_decode = map ucast,
      ToString = js_ToString\<rparr>"


definition blank_password_page :: "nat page" where
  "blank_password_page =
     \<lparr>password_value = js '''', data_value = js ''secret'', output_textContent = js ''old'',
      output_className = js '''', wasm = 0, engine_calls = []\<rparr>"

definition filled_page :: "nat page" where
  "filled_page =
     \<lparr>password_value = js ''hunter2'', data_value = js ''secret'', output_textContent = js '''',
      output_className = js '''', wasm = 0, engine_calls = []\<rparr>"

section \<open>The engine behind the wrappers\<close>

text \<open>
  \<open>encrypt_wrapper\<close> and \<open>decrypt_wrapper\<close> export the engine's \<open>encrypt\<close> and
  \<open>decrypt\<close>. The engine is compiled from sources that are not part of \<open>src/\<close>, so
  this section follows the design document.

  Modelled from the spec: the error taxonomy of the engine (section 7) and its data
  model, cost parameters and envelope (sections 3 and 6); the engine's own type
  declarations are not under \<open>src/\<close>.
\<close>

datatype vault_error =
  EntropyUnavailable
| DerivationResourceExhausted
| AuthenticationFailed
| MalformedEnvelope
| UnsupportedVersion
| InvalidEncoding
| SerializationError

record cost_parameters =
  memory_kib :: nat
  iterations :: nat
  parallelism :: nat

text \<open>
  Modelled from the spec: the envelope once parsed (section 3), and the record as the
  text carries it, its binary fields in their text-safe form (section 6).
\<close>

record envelope =
  version :: int
  kdf_params :: cost_parameters
  salt :: "byte list"
  nonce :: "byte list"
  ciphertext :: "byte list"

record wire_envelope =
  wire_version :: int
  wire_kdf_params :: cost_parameters
  wire_salt :: string
  wire_nonce :: string
  wire_ciphertext :: string

text \<open>
  Modelled from the spec: the leaf components of the engine, none of which is under
  \<open>src/\<close>. The design gives their contracts and not their code, so the facade takes
  them as parameters:
  \<^item> \<open>random_bytes\<close>, the Platform Randomness Source (4.1), reading a generator state
    \<open>'r\<close> and failing with \<open>EntropyUnavailable\<close>;
  \<^item> \<open>derive\<close>, the Key Derivation Unit (4.3), a function of password, salt and cost
    parameters that may fail with \<open>DerivationResourceExhausted\<close>;
  \<^item> \<open>seal\<close> and \<open>aead_open\<close> (the design's \<open>open\<close>), the AEAD Cipher Unit (4.4),
    on key, nonce and plaintext or ciphertext with tag; \<open>aead_open\<close> is \<open>None\<close> when
    the tag does not verify;
  \<^item> \<open>bytes_to_text\<close> and \<open>text_to_bytes\<close>, the text-safe encoding of a binary
    field, and \<open>write_record\<close> and \<open>read_record\<close>, the structured text format (4.5, 6);
  \<^item> \<open>salt_length\<close>, the fixed length of a salt (at least 16).

  One value of this record stands for one build on one host: whether that host has the
  memory \<open>derive\<close> needs is part of \<open>derive\<close>.
\<close>

record 'r primitives =
  random_bytes :: "'r \<Rightarrow> nat \<Rightarrow> vault_error + (byte list \<times> 'r)"
  derive :: "byte list \<Rightarrow> byte list \<Rightarrow> cost_parameters \<Rightarrow> vault_error + byte list"
  seal :: "byte list \<Rightarrow> byte list \<Rightarrow> byte list \<Rightarrow> byte list"
  aead_open :: "byte list \<Rightarrow> byte list \<Rightarrow> byte list \<Rightarrow> byte list option"
  bytes_to_text :: "byte list \<Rightarrow> string"
  text_to_bytes :: "string \<Rightarrow> byte list option"
  write_record :: "wire_envelope \<Rightarrow> string"
  read_record :: "string \<Rightarrow> wire_envelope option"
  salt_length :: nat

definition current_version :: int where
  \<comment> \<open>Modelled from the spec: the one format version (sections 3 and 8).\<close>
  "current_version = 1"

definition hardcoded_params :: cost_parameters where
  \<comment> \<open>Modelled from the spec: 256 MiB, 4 iterations, 8 lanes (4.3, 6).\<close>
  "hardcoded_params = \<lparr>memory_kib = 262144, iterations = 4, parallelism = 8\<rparr>"

definition nonce_length :: nat where
  \<comment> \<open>Modelled from the spec: a nonce is 12 bytes (section 3).\<close>
  "nonce_length = 12"

definition key_length :: nat where
  \<comment> \<open>Modelled from the spec: a derived key is 256 bits (section 3).\<close>
  "key_length = 32"

definition build :: "'r primitives \<Rightarrow> envelope \<Rightarrow> string" where
  \<comment> \<open>Modelled from the spec: Envelope Codec, encode (4.5).\<close>
  "build P env =
     write_record P
       \<lparr>wire_version = version env, wire_kdf_params = kdf_params env,
        wire_salt = bytes_to_text P (salt env), wire_nonce = bytes_to_text P (nonce env),
        wire_ciphertext = bytes_to_text P (ciphertext env)\<rparr>"

definition parse :: "'r primitives \<Rightarrow> string \<Rightarrow> vault_error + envelope" where
  \<comment> \<open>Modelled from the spec: Envelope Codec, decode (4.5), with its three failures in
      the order the design lists them.\<close>
  "parse P text =
     (case read_record P text of
        None \<Rightarrow> Inl MalformedEnvelope
      | Some w \<Rightarrow>
          if wire_version w \<noteq> current_version then Inl UnsupportedVersion
          else
            (case (text_to_bytes P (wire_salt w), text_to_bytes P (wire_nonce w),
                   text_to_bytes P (wire_ciphertext w)) of
               (Some s, Some n, Some c) \<Rightarrow>
                 Inr \<lparr>version = wire_version w, kdf_params = wire_kdf_params w, salt = s,
                      nonce = n, ciphertext = c\<rparr>
             | _ \<Rightarrow> Inl InvalidEncoding))"

definition encrypt ::
  "'r primitives \<Rightarrow> 'r \<Rightarrow> byte list \<Rightarrow> byte list \<Rightarrow> vault_error + (string \<times> 'r)" where
  \<comment> \<open>Modelled from the spec: Engine Facade, \<open>encrypt\<close> (4.6): draw a salt and a nonce,
      derive the key with the hardcoded parameters, seal, build the envelope.\<close>
  "encrypt P r plaintext password =
     (case random_bytes P r (salt_length P) of
        Inl e \<Rightarrow> Inl e
      | Inr (s, r1) \<Rightarrow>
          (case random_bytes P r1 nonce_length of
             Inl e \<Rightarrow> Inl e
           | Inr (n, r2) \<Rightarrow>
               (case derive P password s hardcoded_params of
                  Inl e \<Rightarrow> Inl e
                | Inr key \<Rightarrow>
                    Inr (build P \<lparr>version = current_version, kdf_params = hardcoded_params,
                                  salt = s, nonce = n, ciphertext = seal P key n plaintext\<rparr>,
                         r2))))"

definition decrypt :: "'r primitives \<Rightarrow> string \<Rightarrow> byte list \<Rightarrow> vault_error + byte list" where
  \<comment> \<open>Modelled from the spec: Engine Facade, \<open>decrypt\<close> (4.6): parse, derive the key again
      from the stored salt and parameters, open.\<close>
  "decrypt P text password =
     (case parse P text of
        Inl e \<Rightarrow> Inl e
      | Inr env \<Rightarrow>
          (case derive P password (salt env) (kdf_params env) of
             Inl e \<Rightarrow> Inl e
           | Inr key \<Rightarrow>
               (case aead_open P key (nonce env) (ciphertext env) of
                  None \<Rightarrow> Inl AuthenticationFailed
                | Some plaintext \<Rightarrow> Inr plaintext)))"

subsection \<open>The contracts of the components\<close>

definition random_bytes_sized :: "'r primitives \<Rightarrow> bool" where
  \<comment> \<open>Modelled from the spec: \<open>random_bytes(n)\<close> is a byte sequence of length \<open>n\<close> (4.1).\<close>
  "random_bytes_sized P =
     (\<forall>r n b r'. random_bytes P r n = Inr (b, r') \<longrightarrow> length b = n)"

definition derive_sized :: "'r primitives \<Rightarrow> bool" where
  \<comment> \<open>Modelled from the spec: a derived key is 32 bytes (4.3).\<close>
  "derive_sized P =
     (\<forall>password s params key. derive P password s params = Inr key \<longrightarrow> length key = key_length)"

definition open_inverts_seal :: "'r primitives \<Rightarrow> bool" where
  \<comment> \<open>Modelled from the spec: under one 32-byte key and one 12-byte nonce, \<open>open\<close>
      returns what \<open>seal\<close> took (3, 4.4).\<close>
  "open_inverts_seal P =
     (\<forall>key n plaintext. length key = key_length \<and> length n = nonce_length \<longrightarrow>
        aead_open P key n (seal P key n plaintext) = Some plaintext)"

definition codec_lossless :: "'r primitives \<Rightarrow> bool" where
  \<comment> \<open>Modelled from the spec: what is written as text reads back as it was (4.5, 6).\<close>
  "codec_lossless P =
     ((\<forall>w. read_record P (write_record P w) = Some w) \<and>
      (\<forall>b. text_to_bytes P (bytes_to_text P b) = Some b))"

subsection \<open>A small instance of the components\<close>

text \<open>
  An instance on which the facade can be run: a counter as random source, a key made of
  password and salt, a one-byte checksum as tag, and a text format that writes every
  field character by character, each after a \<open>+\<close>, and ends the field with a \<open>.\<close>;
  numbers are written in base 256, lowest digit first. It has the shape of the real
  components and none of their strength.
\<close>

fun digits :: "nat \<Rightarrow> string" where
  "digits n = (if n = 0 then [] else char_of (n mod 256) # digits (n div 256))"

declare digits.simps [simp del]

fun undigits :: "string \<Rightarrow> nat" where
  "undigits [] = 0"
| "undigits (c # cs) = of_char c + 256 * undigits cs"

fun put_field :: "string \<Rightarrow> string" where
  "put_field [] = ''.''"
| "put_field (c # cs) = CHR ''+'' # c # put_field cs"

fun get_field :: "string \<Rightarrow> (string \<times> string) option" where
  "get_field [] = None"
| "get_field [c] = (if c = CHR ''.'' then Some ([], []) else None)"
| "get_field (c # d # ds) =
     (if c = CHR ''.'' then Some ([], d # ds)
      else if c = CHR ''+'' then
        (case get_field ds of None \<Rightarrow> None | Some (f, rest) \<Rightarrow> Some (d # f, rest))
      else None)"

definition get_nat :: "string \<Rightarrow> (nat \<times> string) option" where
  "get_nat text = (case get_field text of None \<Rightarrow> None | Some (f, rest) \<Rightarrow> Some (undigits f, rest))"

definition sample_write :: "wire_envelope \<Rightarrow> string" where
  "sample_write w =
     (if wire_version w < 0 then CHR ''-'' else CHR ''+'')
     # put_field (digits (nat \<bar>wire_version w\<bar>))
     @ put_field (digits (memory_kib (wire_kdf_params w)))
     @ put_field (digits (iterations (wire_kdf_params w)))
     @ put_field (digits (parallelism (wire_kdf_params w)))
     @ put_field (wire_salt w) @ put_field (wire_nonce w) @ put_field (wire_ciphertext w)"

definition sample_read :: "string \<Rightarrow> wire_envelope option" where
  "sample_read text =
     (case text of
        [] \<Rightarrow> None
      | sign # t0 \<Rightarrow>
          if sign \<noteq> CHR ''+'' \<and> sign \<noteq> CHR ''-'' then None
          else
            (case get_nat t0 of None \<Rightarrow> None | Some (v, t1) \<Rightarrow>
             case get_nat t1 of None \<Rightarrow> None | Some (m, t2) \<Rightarrow>
             case get_nat t2 of None \<Rightarrow> None | Some (i, t3) \<Rightarrow>
             case get_nat t3 of None \<Rightarrow> None | Some (p, t4) \<Rightarrow>
             case get_field t4 of None \<Rightarrow> None | Some (s, t5) \<Rightarrow>
             case get_field t5 of None \<Rightarrow> None | Some (n, t6) \<Rightarrow>
             case get_field t6 of None \<Rightarrow> None | Some (c, t7) \<Rightarrow>
               if t7 \<noteq> [] then None
               else Some \<lparr>wire_version = (if sign = CHR ''-'' then - int v else int v),
                          wire_kdf_params = \<lparr>memory_kib = m, iterations = i, parallelism = p\<rparr>,
                          wire_salt = s, wire_nonce = n, wire_ciphertext = c\<rparr>))"

definition sample_tag :: "byte list \<Rightarrow> byte list \<Rightarrow> byte list \<Rightarrow> byte" where
  "sample_tag key n plaintext = sum_list key + sum_list n + sum_list plaintext"

definition sample_open :: "byte list \<Rightarrow> byte list \<Rightarrow> byte list \<Rightarrow> byte list option" where
  "sample_open key n sealed =
     (if sealed = [] then None
      else if last sealed = sample_tag key n (butlast sealed) then Some (butlast sealed)
      else None)"

definition sample_primitives :: "nat primitives" where
  "sample_primitives =
     \<lparr>random_bytes = (\<lambda>r n. Inr (map (\<lambda>i. of_nat (r + i)) [0..<n], r + n)),
      derive = (\<lambda>password s params.
        Inr (take key_length (password @ s @ replicate key_length (of_nat (iterations params))))),
      seal = (\<lambda>key n plaintext. plaintext @ [sample_tag key n plaintext]),
      aead_open = sample_open,
      bytes_to_text = map (\<lambda>b. char_of (unat b)),
      text_to_bytes = (\<lambda>text. Some (map (\<lambda>c. of_nat (of_char c)) text)),
      write_record = sample_write,
      read_record = sample_read,
      salt_length = 16\<rparr>"

definition out_of_memory :: "byte list \<Rightarrow> byte list \<Rightarrow> cost_parameters \<Rightarrow> vault_error + byte list" where
  \<comment> \<open>a key derivation that never succeeds\<close>
  "out_of_memory password s params = Inl DerivationResourceExhausted"

definition version_two_text :: string where
  \<comment> \<open>an envelope of the sample format that names version 2\<close>
  "version_two_text =
     sample_write \<lparr>wire_version = 2, wire_kdf_params = \<lparr>memory_kib = 8, iterations = 1, parallelism = 1\<rparr>,
                   wire_salt = ''s'', wire_nonce = ''n'', wire_ciphertext = ''c''\<rparr>"

definition hello_vault :: "byte list" where
  "hello_vault = TextEncoder_encode (js ''hello vault'')"

definition staple_password :: "byte list" where
  "staple_password = TextEncoder_encode (js ''correct horse battery staple'')"

definition hello_vault_envelope :: envelope where
  \<comment> \<open>what the sample components make of \<open>hello_vault\<close> when the counter stands at 0\<close>
  "hello_vault_envelope =
     \<lparr>version = 1, kdf_params = \<lparr>memory_kib = 262144, iterations = 4, parallelism = 8\<rparr>,
      salt = [0, 1, 2, 3, 4, 5, 6, 7, 8, 9, 10, 11, 12, 13, 14, 15],
      nonce = [16, 17, 18, 19, 20, 21, 22, 23, 24, 25, 26, 27],
      ciphertext = [0x68, 0x65, 0x6C, 0x6C, 0x6F, 0x20, 0x76, 0x61, 0x75, 0x6C, 0x74, 0x5F]\<rparr>"

section \<open>Properties of the click handlers\<close>

lemma utf8_bytes_nonempty: "utf8_bytes c \<noteq> []"
  by (simp add: utf8_bytes_def)

lemma scalar_values_nonempty: "s \<noteq> [] \<Longrightarrow> scalar_values s \<noteq> []"
  by (induction s rule: scalar_values.induct) auto

lemma TextEncoder_encode_nonempty: "s \<noteq> [] \<Longrightarrow> TextEncoder_encode s \<noteq> []"
  using scalar_values_nonempty[of s]
  by (cases "scalar_values s") (auto simp: TextEncoder_encode_def utf8_bytes_nonempty)

lemmas click_defs =
  encrypt_click_def decrypt_click_def try_catch_def encrypt_try_def decrypt_try_def
  encrypt_catch_def decrypt_catch_def call_encrypt_wrapper_def call_decrypt_wrapper_def

text \<open>Each handler, with the \<open>try\<close> and the \<open>catch\<close> block unfolded into its three exits.\<close>

lemma encrypt_click_cases:
  "encrypt_click I s =
     (if password_value s = [] \<or> data_value s = [] then
        Inr (s\<lparr>output_textContent := js ''Please provide a password and data to encrypt.'',
               output_className := js ''error''\<rparr>)
      else
        (let bytes = TextEncoder_encode (data_value s);
             r = encrypt_wrapper I (wasm s) bytes (password_value s);
             s' = s\<lparr>wasm := snd r,
                    engine_calls := engine_calls s @ [EncryptCall bytes (password_value s)]\<rparr>
         in case fst r of
              Inl e \<Rightarrow>
                (case ToString I e of
                   Inl type_error \<Rightarrow> Inl (type_error, s')
                 | Inr message \<Rightarrow>
                     Inr (s'\<lparr>output_textContent := js ''Encryption failed: '' @ message,
                             output_className := js ''error''\<rparr>))
            | Inr v \<Rightarrow> Inr (s'\<lparr>output_textContent := v, output_className := js ''''\<rparr>)))"
  by (simp add: click_defs Let_def split: prod.splits sum.splits)

lemma decrypt_click_cases:
  "decrypt_click I s =
     (if password_value s = [] \<or> data_value s = [] then
        Inr (s\<lparr>output_textContent :=
                 js ''Please provide a password and the encrypted JSON payload.'',
               output_className := js ''error''\<rparr>)
      else
        (let r = decrypt_wrapper I (wasm s) (data_value s) (password_value s);
             s' = s\<lparr>wasm := snd r,
                    engine_calls :=
                      engine_calls s @ [DecryptCall (data_value s) (password_value s)]\<rparr>
         in case fst r of
              Inl e \<Rightarrow>
                (case ToString I e of
                   Inl type_error \<Rightarrow> Inl (type_error, s')
                 | Inr message \<Rightarrow>
                     Inr (s'\<lparr>output_textContent := js ''Decryption failed: '' @ message,
                             output_className := js ''error''\<rparr>))
            | Inr v \<Rightarrow> Inr (s'\<lparr>output_textContent := TextDecoder_decode I v,
                               output_className := js ''''\<rparr>)))"
  by (simp add: click_defs Let_def split: prod.splits sum.splits)

lemma calls_during_encrypt:
  "calls_during (encrypt_click I) s =
     (if password_value s = [] \<or> data_value s = [] then []
      else [EncryptCall (TextEncoder_encode (data_value s)) (password_value s)])"
  by (simp add: calls_during_def final_page_def encrypt_click_cases Let_def split: sum.splits)

lemma calls_during_decrypt:
  "calls_during (decrypt_click I) s =
     (if password_value s = [] \<or> data_value s = [] then []
      else [DecryptCall (data_value s) (password_value s)])"
  by (simp add: calls_during_def final_page_def decrypt_click_cases Let_def split: sum.splits)

text \<open>
  C8. When the password field or the data field is the empty string, each handler
  writes its error message and the class \<open>error\<close> to the output element and returns
  without calling a wrapper: the page is otherwise as before and the run adds no call
  to the log. Hence every call a handler does make carries a non-empty password and a
  non-empty input.
\<close>

theorem empty_field_guard:
  "(password_value s = [] \<or> data_value s = [] \<longrightarrow>
      encrypt_click I s =
        Inr (s\<lparr>output_textContent := js ''Please provide a password and data to encrypt.'',
               output_className := js ''error''\<rparr>)
      \<and> decrypt_click I s =
        Inr (s\<lparr>output_textContent :=
                 js ''Please provide a password and the encrypted JSON payload.'',
               output_className := js ''error''\<rparr>)
      \<and> calls_during (encrypt_click I) s = []
      \<and> calls_during (decrypt_click I) s = [])
   \<and> (\<forall>c \<in> set (calls_during (encrypt_click I) s). nonempty_args c)
   \<and> (\<forall>c \<in> set (calls_during (decrypt_click I) s). nonempty_args c)"
proof (intro conjI impI)
  assume empty: "password_value s = [] \<or> data_value s = []"
  then show "encrypt_click I s =
      Inr (s\<lparr>output_textContent := js ''Please provide a password and data to encrypt.'',
             output_className := js ''error''\<rparr>)"
    by (simp add: encrypt_click_cases)
  from empty show "decrypt_click I s =
      Inr (s\<lparr>output_textContent :=
               js ''Please provide a password and the encrypted JSON payload.'',
             output_className := js ''error''\<rparr>)"
    by (simp add: decrypt_click_cases)
  from empty show "calls_during (encrypt_click I) s = []"
    by (simp add: calls_during_encrypt)
  from empty show "calls_during (decrypt_click I) s = []"
    by (simp add: calls_during_decrypt)
next
  show "\<forall>c \<in> set (calls_during (encrypt_click I) s). nonempty_args c"
    by (simp add: calls_during_encrypt TextEncoder_encode_nonempty)
  show "\<forall>c \<in> set (calls_during (decrypt_click I) s). nonempty_args c"
    by (simp add: calls_during_decrypt)
qed

theorem empty_field_guard_witness:
  "encrypt_click demo_runtime blank_password_page =
     Inr (blank_password_page
            \<lparr>output_textContent := js ''Please provide a password and data to encrypt.'',
             output_className := js ''error''\<rparr>)
   \<and> decrypt_click demo_runtime blank_password_page =
     Inr (blank_password_page
            \<lparr>output_textContent :=
               js ''Please provide a password and the encrypted JSON payload.'',
             output_className := js ''error''\<rparr>)
   \<and> calls_during (encrypt_click demo_runtime) blank_password_page = []
   \<and> calls_during (decrypt_click demo_runtime) blank_password_page = []
   \<and> calls_during (encrypt_click demo_runtime) filled_page =
       [EncryptCall [0x73, 0x65, 0x63, 0x72, 0x65, 0x74] (js ''hunter2'')]
   \<and> nonempty_args (EncryptCall [0x73, 0x65, 0x63, 0x72, 0x65, 0x74] (js ''hunter2''))
   \<and> calls_during (decrypt_click demo_runtime) filled_page =
       [DecryptCall (js ''secret'') (js ''hunter2'')]
   \<and> nonempty_args (DecryptCall (js ''secret'') (js ''hunter2''))"
proof -
  have blank: "password_value blank_password_page = []"
    by (simp add: blank_password_page_def js_def)
  have enc: "calls_during (encrypt_click demo_runtime) filled_page =
      [EncryptCall [0x73, 0x65, 0x63, 0x72, 0x65, 0x74] (js ''hunter2'')]"
    by (simp add: calls_during_encrypt filled_page_def js_def TextEncoder_encode_def
        utf8_bytes_def is_lead_def is_trail_def)
  have dec: "calls_during (decrypt_click demo_runtime) filled_page =
      [DecryptCall (js ''secret'') (js ''hunter2'')]"
    by (simp add: calls_during_decrypt filled_page_def js_def)
  from empty_field_guard [of blank_password_page demo_runtime] blank
    empty_field_guard [of filled_page demo_runtime] enc dec
  show ?thesis by simp
qed







text \<open>The page a handler leaves behind, on each of its exits.\<close>

lemma encrypt_click_frame:
  "\<exists>t c w l x.
     encrypt_click I s =
       Inr (s\<lparr>output_textContent := t, output_className := c, wasm := w, engine_calls := l\<rparr>)
     \<or> encrypt_click I s = Inl (x, s\<lparr>wasm := w, engine_calls := l\<rparr>)"
proof (cases "password_value s = [] \<or> data_value s = []")
  case True
  then have "encrypt_click I s =
      Inr (s\<lparr>output_textContent := js ''Please provide a password and data to encrypt.'',
             output_className := js ''error'', wasm := wasm s,
             engine_calls := engine_calls s\<rparr>)"
    by (simp add: encrypt_click_cases)
  then show ?thesis by blast
next
  case False
  define bytes where "bytes = TextEncoder_encode (data_value s)"
  define r where "r = encrypt_wrapper I (wasm s) bytes (password_value s)"
  define l where "l = engine_calls s @ [EncryptCall bytes (password_value s)]"
  show ?thesis
  proof (cases "fst r")
    case (Inl e)
    show ?thesis
    proof (cases "ToString I e")
      case (Inl type_error)
      with False \<open>fst r = Inl e\<close> have "encrypt_click I s =
          Inl (type_error, s\<lparr>wasm := snd r, engine_calls := l\<rparr>)"
        by (simp add: encrypt_click_cases Let_def r_def bytes_def l_def)
      then show ?thesis by blast
    next
      case (Inr message)
      with False \<open>fst r = Inl e\<close> have "encrypt_click I s =
          Inr (s\<lparr>output_textContent := js ''Encryption failed: '' @ message,
                 output_className := js ''error'', wasm := snd r, engine_calls := l\<rparr>)"
        by (simp add: encrypt_click_cases Let_def r_def bytes_def l_def)
      then show ?thesis by blast
    qed
  next
    case (Inr v)
    with False have "encrypt_click I s =
        Inr (s\<lparr>output_textContent := v, output_className := js '''', wasm := snd r,
               engine_calls := l\<rparr>)"
      by (simp add: encrypt_click_cases Let_def r_def bytes_def l_def)
    then show ?thesis by blast
  qed
qed

lemma decrypt_click_frame:
  "\<exists>t c w l x.
     decrypt_click I s =
       Inr (s\<lparr>output_textContent := t, output_className := c, wasm := w, engine_calls := l\<rparr>)
     \<or> decrypt_click I s = Inl (x, s\<lparr>wasm := w, engine_calls := l\<rparr>)"
proof (cases "password_value s = [] \<or> data_value s = []")
  case True
  then have "decrypt_click I s =
      Inr (s\<lparr>output_textContent :=
               js ''Please provide a password and the encrypted JSON payload.'',
             output_className := js ''error'', wasm := wasm s,
             engine_calls := engine_calls s\<rparr>)"
    by (simp add: decrypt_click_cases)
  then show ?thesis by blast
next
  case False
  define r where "r = decrypt_wrapper I (wasm s) (data_value s) (password_value s)"
  define l where "l = engine_calls s @ [DecryptCall (data_value s) (password_value s)]"
  show ?thesis
  proof (cases "fst r")
    case (Inl e)
    show ?thesis
    proof (cases "ToString I e")
      case (Inl type_error)
      with False \<open>fst r = Inl e\<close> have "decrypt_click I s =
          Inl (type_error, s\<lparr>wasm := snd r, engine_calls := l\<rparr>)"
        by (simp add: decrypt_click_cases Let_def r_def l_def)
      then show ?thesis by blast
    next
      case (Inr message)
      with False \<open>fst r = Inl e\<close> have "decrypt_click I s =
          Inr (s\<lparr>output_textContent := js ''Decryption failed: '' @ message,
                 output_className := js ''error'', wasm := snd r, engine_calls := l\<rparr>)"
        by (simp add: decrypt_click_cases Let_def r_def l_def)
      then show ?thesis by blast
    qed
  next
    case (Inr v)
    with False have "decrypt_click I s =
        Inr (s\<lparr>output_textContent := TextDecoder_decode I v, output_className := js '''',
               wasm := snd r, engine_calls := l\<rparr>)"
      by (simp add: decrypt_click_cases Let_def r_def l_def)
    then show ?thesis by blast
  qed
qed

text \<open>
  C10. On every path, also the one that ends in a throw, a handler changes nothing of
  the page but the text and the class of the output element (and what the wrapper it
  called did to the WebAssembly instance and the call log): the values of the password
  field and of the data field are the ones it found.
\<close>

theorem input_fields_unchanged:
  "(\<exists>t c w l x.
      encrypt_click I s =
        Inr (s\<lparr>output_textContent := t, output_className := c, wasm := w, engine_calls := l\<rparr>)
      \<or> encrypt_click I s = Inl (x, s\<lparr>wasm := w, engine_calls := l\<rparr>))
   \<and> (\<exists>t c w l x.
      decrypt_click I s =
        Inr (s\<lparr>output_textContent := t, output_className := c, wasm := w, engine_calls := l\<rparr>)
      \<or> decrypt_click I s = Inl (x, s\<lparr>wasm := w, engine_calls := l\<rparr>))
   \<and> password_value (final_page (encrypt_click I s)) = password_value s
   \<and> data_value (final_page (encrypt_click I s)) = data_value s
   \<and> password_value (final_page (decrypt_click I s)) = password_value s
   \<and> data_value (final_page (decrypt_click I s)) = data_value s"
proof -
  obtain t c w l x where enc:
    "encrypt_click I s =
       Inr (s\<lparr>output_textContent := t, output_className := c, wasm := w, engine_calls := l\<rparr>)
     \<or> encrypt_click I s = Inl (x, s\<lparr>wasm := w, engine_calls := l\<rparr>)"
    using encrypt_click_frame [of I s] by auto
  obtain t' c' w' l' x' where dec:
    "decrypt_click I s =
       Inr (s\<lparr>output_textContent := t', output_className := c', wasm := w', engine_calls := l'\<rparr>)
     \<or> decrypt_click I s = Inl (x', s\<lparr>wasm := w', engine_calls := l'\<rparr>)"
    using decrypt_click_frame [of I s] by auto
  from enc have "password_value (final_page (encrypt_click I s)) = password_value s"
    and "data_value (final_page (encrypt_click I s)) = data_value s"
    by (auto simp: final_page_def)
  moreover from dec have "password_value (final_page (decrypt_click I s)) = password_value s"
    and "data_value (final_page (decrypt_click I s)) = data_value s"
    by (auto simp: final_page_def)
  ultimately show ?thesis
    using encrypt_click_frame [of I s] decrypt_click_frame [of I s] by simp
qed

section \<open>Properties of the engine as designed\<close>

subsection \<open>The sample components meet the contracts\<close>

lemma undigits_digits: "undigits (digits n) = n"
proof (induction n rule: digits.induct)
  case (1 n)
  show ?case
  proof (cases "n = 0")
    case True
    then show ?thesis by (simp add: digits.simps)
  next
    case False
    have "undigits (digits n) = of_char (char_of (n mod 256)) + 256 * undigits (digits (n div 256))"
      using False by (subst digits.simps) simp
    also have "\<dots> = n mod 256 + 256 * (n div 256)"
      using 1 False by simp
    finally show ?thesis by simp
  qed
qed

lemma get_field_put_field: "get_field (put_field f @ rest) = Some (f, rest)"
proof (induction f)
  case Nil
  show ?case by (cases rest) simp_all
next
  case (Cons c cs)
  obtain d ds where "put_field cs @ rest = d # ds"
    by (cases cs) auto
  with Cons show ?case by simp
qed

lemma get_nat_put_field: "get_nat (put_field (digits n) @ rest) = Some (n, rest)"
  by (simp add: get_nat_def get_field_put_field undigits_digits)

lemma sample_read_write: "sample_read (sample_write w) = Some w"
proof -
  have sign: "(if wire_version w < 0 then - int (nat \<bar>wire_version w\<bar>) else int (nat \<bar>wire_version w\<bar>))
      = wire_version w"
    by simp
  have last: "get_field (put_field (wire_ciphertext w)) = Some (wire_ciphertext w, [])"
    using get_field_put_field [of "wire_ciphertext w" "[]"] by simp
  show ?thesis
    unfolding sample_read_def sample_write_def
    by (simp add: get_nat_put_field get_field_put_field last sign del: put_field.simps)
qed

lemma byte_of_char_of: "of_nat (unat (b :: byte) mod 256) = b"
proof -
  have "unat b < 256"
    using unsigned_less [of b] by simp
  then have "unat b mod 256 = unat b"
    by simp
  then show ?thesis by simp
qed

lemma sample_text_roundtrip:
  "map (\<lambda>c. of_nat (of_char c)) (map (\<lambda>b. char_of (unat b)) bs) = (bs :: byte list)"
  by (induction bs) (simp_all add: byte_of_char_of)

lemma sample_codec_lossless: "codec_lossless sample_primitives"
  by (simp add: codec_lossless_def sample_primitives_def sample_read_write sample_text_roundtrip del: map_map)

lemma sample_open_inverts_seal: "open_inverts_seal sample_primitives"
  by (simp add: open_inverts_seal_def sample_primitives_def sample_open_def)

lemma sample_random_bytes_sized: "random_bytes_sized sample_primitives"
  by (auto simp: random_bytes_sized_def sample_primitives_def)

lemma sample_derive_sized: "derive_sized sample_primitives"
  by (auto simp: derive_sized_def sample_primitives_def)

subsection \<open>Round trip\<close>

lemma parse_build:
  assumes "codec_lossless P" and "version env = current_version"
  shows "parse P (build P env) = Inr env"
  using assms by (simp add: codec_lossless_def parse_def build_def)

lemma encrypt_Inr:
  assumes "encrypt P r plaintext password = Inr (text, r')"
  obtains s r1 n key where
    "random_bytes P r (salt_length P) = Inr (s, r1)"
    "random_bytes P r1 nonce_length = Inr (n, r')"
    "derive P password s hardcoded_params = Inr key"
    "text = build P \<lparr>version = current_version, kdf_params = hardcoded_params, salt = s,
                     nonce = n, ciphertext = seal P key n plaintext\<rparr>"
  using assms unfolding encrypt_def
  by (auto split: sum.splits prod.splits)

lemma encrypt_envelope_fields:
  assumes "codec_lossless P" and "encrypt P r plaintext password = Inr (text, r')"
  shows "\<exists>env. parse P text = Inr env \<and> version env = 1
           \<and> kdf_params env = \<lparr>memory_kib = 262144, iterations = 4, parallelism = 8\<rparr>"
proof -
  from assms(2) obtain s n key where
    built: "text = build P \<lparr>version = current_version, kdf_params = hardcoded_params, salt = s,
                            nonce = n, ciphertext = seal P key n plaintext\<rparr>"
    by (rule encrypt_Inr)
  have "parse P text =
      Inr \<lparr>version = current_version, kdf_params = hardcoded_params, salt = s, nonce = n,
           ciphertext = seal P key n plaintext\<rparr>"
    unfolding built using assms(1) by (rule parse_build) simp
  then show ?thesis
    by (simp add: current_version_def hardcoded_params_def)
qed

text \<open>
  C1. For every plaintext and every password, decrypting the envelope that \<open>encrypt\<close>
  produced, with the same password, returns exactly the plaintext. The components are
  those of the design: random bytes of the requested length, 32-byte keys, an AEAD whose
  \<open>open\<close> inverts \<open>seal\<close> under one key and nonce, a lossless text format.
\<close>

theorem decrypt_encrypt_roundtrip:
  assumes "random_bytes_sized P" and "derive_sized P" and "open_inverts_seal P"
    and "codec_lossless P"
    and "encrypt P r plaintext password = Inr (text, r')"
  shows "decrypt P text password = Inr plaintext"
proof -
  from assms(5) obtain s r1 n key where
    nonce: "random_bytes P r1 nonce_length = Inr (n, r')" and
    key: "derive P password s hardcoded_params = Inr key" and
    built: "text = build P \<lparr>version = current_version, kdf_params = hardcoded_params, salt = s,
                            nonce = n, ciphertext = seal P key n plaintext\<rparr>"
    by (rule encrypt_Inr)
  from nonce assms(1) have "length n = nonce_length"
    unfolding random_bytes_sized_def by blast
  moreover from key assms(2) have "length key = key_length"
    unfolding derive_sized_def by blast
  ultimately have opened: "aead_open P key n (seal P key n plaintext) = Some plaintext"
    using assms(3) unfolding open_inverts_seal_def by blast
  have "parse P text =
      Inr \<lparr>version = current_version, kdf_params = hardcoded_params, salt = s, nonce = n,
           ciphertext = seal P key n plaintext\<rparr>"
    unfolding built using assms(4) by (rule parse_build) simp
  then show ?thesis
    by (simp add: decrypt_def key opened)
qed

theorem decrypt_encrypt_roundtrip_witness:
  "encrypt sample_primitives 0 hello_vault staple_password =
     Inr (build sample_primitives hello_vault_envelope, 28)
   \<and> decrypt sample_primitives (build sample_primitives hello_vault_envelope) staple_password =
     Inr hello_vault"
proof -
  have hello: "hello_vault = [0x68, 0x65, 0x6C, 0x6C, 0x6F, 0x20, 0x76, 0x61, 0x75, 0x6C, 0x74]"
    by (simp add: hello_vault_def js_def TextEncoder_encode_def utf8_bytes_def is_lead_def
        is_trail_def)
  have staple: "staple_password =
      [0x63, 0x6F, 0x72, 0x72, 0x65, 0x63, 0x74, 0x20, 0x68, 0x6F, 0x72, 0x73, 0x65, 0x20,
       0x62, 0x61, 0x74, 0x74, 0x65, 0x72, 0x79, 0x20, 0x73, 0x74, 0x61, 0x70, 0x6C, 0x65]"
    by (simp add: staple_password_def js_def TextEncoder_encode_def utf8_bytes_def is_lead_def
        is_trail_def)
  have salt_range: "[0..<16] = [0, 1, 2, 3, 4, 5, 6, 7, 8, 9, 10, 11, 12, 13, 14, 15 :: nat]"
    by code_simp
  have nonce_range: "[0..<12] = [0, 1, 2, 3, 4, 5, 6, 7, 8, 9, 10, 11 :: nat]"
    by code_simp
  have run: "encrypt sample_primitives 0 hello_vault staple_password =
      Inr (build sample_primitives hello_vault_envelope, 28)"
    unfolding hello staple
    by (simp add: salt_range nonce_range encrypt_def sample_primitives_def build_def hello_vault_envelope_def
        current_version_def hardcoded_params_def nonce_length_def key_length_def
        sample_tag_def)
  from decrypt_encrypt_roundtrip [OF sample_random_bytes_sized sample_derive_sized
      sample_open_inverts_seal sample_codec_lossless run] run
  show ?thesis by simp
qed

subsection \<open>Version rejection\<close>

text \<open>
  C5. When the version field of an envelope text names a version this build does not
  understand, \<open>decrypt\<close> fails with \<open>UnsupportedVersion\<close> whatever the key derivation
  and the cipher would do, so before either is attempted; and \<open>parse\<close> gives the same
  result whatever the random source, the key derivation and the cipher are: decoding
  uses none of them.
\<close>

theorem unsupported_version_rejected:
  "(read_record P envelope_text = Some w \<and> wire_version w \<noteq> current_version \<longrightarrow>
      decrypt (P\<lparr>derive := d, aead_open := opn\<rparr>) envelope_text password = Inl UnsupportedVersion)
   \<and> parse (P\<lparr>random_bytes := rb, derive := d, seal := sl, aead_open := opn\<rparr>) envelope_text
       = parse P envelope_text"
  by (auto simp: decrypt_def parse_def split: option.splits)

theorem unsupported_version_rejected_witness:
  "read_record sample_primitives version_two_text =
     Some \<lparr>wire_version = 2,
           wire_kdf_params = \<lparr>memory_kib = 8, iterations = 1, parallelism = 1\<rparr>,
           wire_salt = ''s'', wire_nonce = ''n'', wire_ciphertext = ''c''\<rparr>
   \<and> decrypt (sample_primitives\<lparr>derive := out_of_memory, aead_open := (\<lambda>key n sealed. None)\<rparr>)
       version_two_text staple_password = Inl UnsupportedVersion
   \<and> decrypt sample_primitives version_two_text staple_password = Inl UnsupportedVersion"
proof -
  let ?w = "\<lparr>wire_version = 2,
             wire_kdf_params = \<lparr>memory_kib = 8, iterations = 1, parallelism = 1\<rparr>,
             wire_salt = ''s'', wire_nonce = ''n'', wire_ciphertext = ''c''\<rparr>"
  have read: "read_record sample_primitives version_two_text = Some ?w"
    by (simp add: sample_primitives_def version_two_text_def sample_read_write)
  have other: "wire_version ?w \<noteq> current_version"
    by (simp add: current_version_def)
  have same: "sample_primitives\<lparr>derive := derive sample_primitives,
      aead_open := aead_open sample_primitives\<rparr> = sample_primitives"
    by simp
  from unsupported_version_rejected [where P = sample_primitives
      and envelope_text = version_two_text and w = ?w and d = out_of_memory
      and opn = "\<lambda>key n sealed. None" and password = staple_password]
    read other
  have stubbed: "decrypt (sample_primitives\<lparr>derive := out_of_memory,
      aead_open := (\<lambda>key n sealed. None)\<rparr>) version_two_text staple_password
      = Inl UnsupportedVersion"
    by blast
  from unsupported_version_rejected [where P = sample_primitives
      and envelope_text = version_two_text and w = ?w and d = "derive sample_primitives"
      and opn = "aead_open sample_primitives" and password = staple_password]
    read other
  have plain: "decrypt sample_primitives version_two_text staple_password
      = Inl UnsupportedVersion"
    unfolding same by blast
  from read stubbed plain show ?thesis by simp
qed

end
